theory Spec2Isabelle
  imports Complex_Main "HOL-Library.AList"
begin

section \<open>JavaScript values\<close>

text \<open>
  TypeScript types are erased when the program runs: the repository stores plain
  JavaScript objects, and the responses of the two external services are untyped
  JSON. Values are therefore modelled by one datatype. A number is an integer
  here (ids, counters, HTTP statuses and lengths are); non-integral doubles, NaN
  and the infinities are outside the model. A \<open>Date\<close> carries its timestamp.
  An object is a map from property names to values; the order of its
  properties is never observed by the code below.
\<close>

datatype jsval =
    JUndefined
  | JNull
  | JBool bool
  | JNum int
  | JStr string
  | JDate int
  | JArr "jsval list"
  | JObj "string \<Rightarrow> jsval option"

type_synonym obj = "string \<Rightarrow> jsval option"

text \<open>Reading a property \<open>o.k\<close> of an object: \<open>undefined\<close> when it is absent.\<close>

definition property :: "obj \<Rightarrow> string \<Rightarrow> jsval" where
  "property ob k = (case ob k of None \<Rightarrow> JUndefined | Some v \<Rightarrow> v)"

text \<open>What a thrown value is. \<open>Error\<close> carries the message of \<open>new Error(msg)\<close>.\<close>

datatype error =
    Error string
  | TypeError
  | SyntaxError
  | ZodError
  | NetworkError

text \<open>
  A number inside a template literal (\<open>`${id}`\<close>): the decimal digits of an
  integer, with a minus sign when negative.
\<close>

fun digits :: "nat \<Rightarrow> string" where
  "digits n =
     (if n < 10 then [''0123456789'' ! n]
      else digits (n div 10) @ [''0123456789'' ! (n mod 10)])"

declare digits.simps [simp del]

definition String_of_number :: "int \<Rightarrow> string" where
  "String_of_number i =
     (if i < 0 then CHR ''-'' # digits (nat (- i)) else digits (nat i))"

section \<open>The repository: \<open>server/storage.ts\<close>\<close>

text \<open>
  A JavaScript \<open>Map\<close> keeps its entries in insertion order; \<open>set\<close> on a key
  that is present replaces the value in place, on a new key it appends the
  entry. \<open>values()\<close> lists the values in that order.
\<close>

type_synonym 'v jsmap = "(int \<times> 'v) list"

definition Map_get :: "'v jsmap \<Rightarrow> int \<Rightarrow> 'v option" where
  "Map_get m k = map_of m k"

definition Map_set :: "int \<Rightarrow> 'v \<Rightarrow> 'v jsmap \<Rightarrow> 'v jsmap" where
  "Map_set k v m = AList.update k v m"

definition Map_values :: "'v jsmap \<Rightarrow> 'v list" where
  "Map_values m = map snd m"

record id_counters =
  user :: int
  insight :: int
  comparison :: int

record MemStorage =
  users :: "obj jsmap"
  insights :: "obj jsmap"
  comparisons :: "obj jsmap"
  currentIds :: id_counters

text \<open>The constructor.\<close>

definition MemStorage_new :: MemStorage where
  "MemStorage_new =
     \<lparr>users = [], insights = [], comparisons = [],
      currentIds = \<lparr>user = 1, insight = 1, comparison = 1\<rparr>\<rparr>"

definition getUser :: "int \<Rightarrow> MemStorage \<Rightarrow> obj option" where
  "getUser i s = Map_get (users s) i"

text \<open>
  \<open>user.twitterHandle === handle\<close> with \<open>handle\<close> a string holds exactly when
  the property is that very string.
\<close>

definition getUserByTwitterHandle :: "string \<Rightarrow> MemStorage \<Rightarrow> obj option" where
  "getUserByTwitterHandle handle s =
     List.find (\<lambda>u. property u ''twitterHandle'' = JStr handle) (Map_values (users s))"

text \<open>
  \<open>const id = this.currentIds.user++; const user = { id, ...insertUser };
  this.users.set(id, user); return user\<close>. The spread copies every property
  of the payload over the literal's \<open>id\<close>.
\<close>

definition createUser :: "obj \<Rightarrow> MemStorage \<Rightarrow> obj \<times> MemStorage" where
  "createUser insertUser s =
     (let i = user (currentIds s);
          s1 = s\<lparr>currentIds := (currentIds s)\<lparr>user := i + 1\<rparr>\<rparr>;
          usr = [''id'' \<mapsto> JNum i] ++ insertUser
      in (usr, s1\<lparr>users := Map_set i usr (users s1)\<rparr>))"

definition getInsight :: "int \<Rightarrow> MemStorage \<Rightarrow> obj option" where
  "getInsight userId s =
     List.find (\<lambda>ins. property ins ''userId'' = JNum userId) (Map_values (insights s))"

definition createInsight :: "obj \<Rightarrow> MemStorage \<Rightarrow> obj \<times> MemStorage" where
  "createInsight insertInsight s =
     (let i = insight (currentIds s);
          s1 = s\<lparr>currentIds := (currentIds s)\<lparr>insight := i + 1\<rparr>\<rparr>;
          ins = [''id'' \<mapsto> JNum i] ++ insertInsight
      in (ins, s1\<lparr>insights := Map_set i ins (insights s1)\<rparr>))"

text \<open>
  \<open>updateInsight\<close> throws \<open>new Error(`Insight not found: ${id}`)\<close> when the
  map has no entry under \<open>id\<close>; the state is returned beside the outcome.
\<close>

definition updateInsight ::
  "int \<Rightarrow> obj \<Rightarrow> MemStorage \<Rightarrow> (error + obj) \<times> MemStorage" where
  "updateInsight i updateData s =
     (case Map_get (insights s) i of
        None \<Rightarrow> (Inl (Error (''Insight not found: '' @ String_of_number i)), s)
      | Some existing \<Rightarrow>
          (let updated = existing ++ updateData
           in (Inr updated, s\<lparr>insights := Map_set i updated (insights s)\<rparr>)))"

definition getComparison :: "int \<Rightarrow> MemStorage \<Rightarrow> obj option" where
  "getComparison i s = Map_get (comparisons s) i"

text \<open>
  \<open>createComparison\<close> reads the clock (\<open>new Date()\<close>); the time read is the
  argument \<open>now\<close>. The \<open>createdAt\<close> property is written after the spread.
\<close>

definition createComparison :: "obj \<Rightarrow> int \<Rightarrow> MemStorage \<Rightarrow> obj \<times> MemStorage" where
  "createComparison insertComparison now s =
     (let i = comparison (currentIds s);
          s1 = s\<lparr>currentIds := (currentIds s)\<lparr>comparison := i + 1\<rparr>\<rparr>;
          cmp = ([''id'' \<mapsto> JNum i] ++ insertComparison)(''createdAt'' \<mapsto> JDate now)
      in (cmp, s1\<lparr>comparisons := Map_set i cmp (comparisons s1)\<rparr>))"

definition getComparisonsByUser :: "int \<Rightarrow> MemStorage \<Rightarrow> obj list" where
  "getComparisonsByUser userId s =
     filter (\<lambda>c. property c ''userAId'' = JNum userId \<or> property c ''userBId'' = JNum userId)
       (Map_values (comparisons s))"

section \<open>The outside world\<close>

text \<open>
  What the code reads from its process and its runtime: the environment
  variables, \<open>fetch\<close>, \<open>JSON.parse\<close>, and the comparison \<open>x > 0\<close> on a
  value that is not a number (a coercion whose result, or exception, the
  language decides). The theorems hold for every such world.

  \<open>log\<close> (\<open>server/utils.ts\<close>) prints one line to the console and returns. Its
  output is not part of the model; an argument of a \<open>log\<close> call that can throw
  is (\<open>textContent.substring(0, 100)\<close> in \<open>generateInsights\<close>). A \<open>catch\<close> that
  logs and rethrows passes the error on as it is.
\<close>

record request_body =
  prompt_text :: string
  generationConfig :: "(string \<times> real) list"

text \<open>
  A request as passed to \<open>fetch\<close>. A Gemini request's body is
  \<open>JSON.stringify({contents: [{parts: [{text}]}], generationConfig})\<close>; the
  model keeps the text and the configuration it is built from.
\<close>

record request =
  url :: string
  http_method :: string
  headers :: "(string \<times> string) list"
  body :: "request_body option"

text \<open>
  A response: \<open>response.text()\<close> and \<open>response.json()\<close> are promises that may
  reject, so each is an outcome.
\<close>

record response =
  ok :: bool
  status :: int
  statusText :: string
  text_result :: "error + string"
  json_result :: "error + jsval"

datatype fetch_outcome = Rejected error | Resolved response

record env =
  GEMINI_API_KEY :: "string option"
  SUPABASE_KEY :: "string option"
  COMMUNITY_ARCHIVE_API_URL :: "string option"
  fetch :: "request \<Rightarrow> fetch_outcome"
  JSON_parse :: "string \<Rightarrow> error + jsval"
  gt_zero_coerced :: "jsval \<Rightarrow> error + bool"

text \<open>Sequencing of steps that may throw.\<close>

definition bindE :: "error + 'a \<Rightarrow> ('a \<Rightarrow> error + 'b) \<Rightarrow> error + 'b" where
  "bindE m f = (case m of Inl e \<Rightarrow> Inl e | Inr x \<Rightarrow> f x)"

fun truthy :: "jsval \<Rightarrow> bool" where
  "truthy JUndefined = False"
| "truthy JNull = False"
| "truthy (JBool b) = b"
| "truthy (JNum n) = (n \<noteq> 0)"
| "truthy (JStr s) = (s \<noteq> [])"
| "truthy (JDate t) = True"
| "truthy (JArr xs) = True"
| "truthy (JObj ob) = True"

text \<open>
  \<open>v.k\<close> on any value, for a name \<open>k\<close> that is neither an array index nor an
  inherited member (the code reads \<open>candidates\<close>, \<open>length\<close>, \<open>content\<close>,
  \<open>parts\<close>, \<open>text\<close>, \<open>description\<close>, \<open>topics\<close>, \<open>sourceFrame\<close>,
  \<open>targetFrame\<close>, \<open>translation\<close>): a TypeError on \<open>undefined\<close> and \<open>null\<close>.
\<close>

fun member :: "jsval \<Rightarrow> string \<Rightarrow> error + jsval" where
  "member JUndefined k = Inl TypeError"
| "member JNull k = Inl TypeError"
| "member (JObj ob) k = Inr (property ob k)"
| "member (JArr xs) k = Inr (if k = ''length'' then JNum (int (length xs)) else JUndefined)"
| "member (JStr s) k = Inr (if k = ''length'' then JNum (int (length s)) else JUndefined)"
| "member (JBool b) k = Inr JUndefined"
| "member (JNum n) k = Inr JUndefined"
| "member (JDate t) k = Inr JUndefined"

text \<open>\<open>v[0]\<close> on any value.\<close>

fun at0 :: "jsval \<Rightarrow> error + jsval" where
  "at0 JUndefined = Inl TypeError"
| "at0 JNull = Inl TypeError"
| "at0 (JObj ob) = Inr (property ob ''0'')"
| "at0 (JArr xs) = Inr (case xs of [] \<Rightarrow> JUndefined | x # _ \<Rightarrow> x)"
| "at0 (JStr s) = Inr (case s of [] \<Rightarrow> JUndefined | c # _ \<Rightarrow> JStr [c])"
| "at0 (JBool b) = Inr JUndefined"
| "at0 (JNum n) = Inr JUndefined"
| "at0 (JDate t) = Inr JUndefined"

text \<open>\<open>v > 0\<close>: on a string, an array or an object the runtime's coercion decides.\<close>

fun gt_zero :: "env \<Rightarrow> jsval \<Rightarrow> error + bool" where
  "gt_zero w (JNum n) = Inr (0 < n)"
| "gt_zero w JUndefined = Inr False"
| "gt_zero w JNull = Inr False"
| "gt_zero w (JBool b) = Inr b"
| "gt_zero w (JDate t) = Inr (0 < t)"
| "gt_zero w v = gt_zero_coerced w v"

text \<open>
  \<open>text.match(/\{[\s\S]*\}/)\<close>: the star is greedy and its class matches every
  character, so the match runs from the first \<open>{\<close> to the last \<open>}\<close> after it,
  and there is none when no \<open>}\<close> follows the first \<open>{\<close>.
\<close>

definition jsonMatch :: "string \<Rightarrow> string option" where
  "jsonMatch t =
     (case dropWhile (\<lambda>c. c \<noteq> CHR ''{'') t of
        [] \<Rightarrow> None
      | c # rest \<Rightarrow>
          (case rev (dropWhile (\<lambda>c. c \<noteq> CHR ''}'') (rev rest)) of
             [] \<Rightarrow> None
           | m # ms \<Rightarrow> Some (c # m # ms)))"

section \<open>The insight generator: \<open>server/services/gemini.ts\<close>\<close>

definition GEMINI_API_URL :: string where
  "GEMINI_API_URL = ''https://generativelanguage.googleapis.com/v1beta''"

definition GEMINI_MODEL :: string where
  "GEMINI_MODEL = ''models/gemini-1.5-pro''"

record GeminiRequestOptions =
  maxTokens :: "real option"
  temperature :: "real option"
  topP :: "real option"
  topK :: "real option"

text \<open>\<open>options.x || d\<close>: the default replaces a missing and a zero value.\<close>

definition or_default :: "real option \<Rightarrow> real \<Rightarrow> real" where
  "or_default v d = (case v of None \<Rightarrow> d | Some x \<Rightarrow> if x = 0 then d else x)"

text \<open>
  \<open>GeminiResponseSchema.parse\<close>: an object whose \<open>candidates\<close> is an array of
  objects, each with an object \<open>content\<close> whose \<open>parts\<close> is an array of objects
  with a string \<open>text\<close>. The parsed value is kept as the texts of the parts of
  each candidate.
\<close>

definition part_text :: "jsval \<Rightarrow> string option" where
  "part_text p =
     (case p of
        JObj ob \<Rightarrow> (case ob ''text'' of Some (JStr t) \<Rightarrow> Some t | _ \<Rightarrow> None)
      | _ \<Rightarrow> None)"

definition candidate_parts :: "jsval \<Rightarrow> string list option" where
  "candidate_parts c =
     (case c of
        JObj ob \<Rightarrow>
          (case ob ''content'' of
             Some (JObj content) \<Rightarrow>
               (case content ''parts'' of
                  Some (JArr ps) \<Rightarrow> those (map part_text ps)
                | _ \<Rightarrow> None)
           | _ \<Rightarrow> None)
      | _ \<Rightarrow> None)"

definition GeminiResponseSchema_parse :: "jsval \<Rightarrow> error + string list list" where
  "GeminiResponseSchema_parse data =
     (case data of
        JObj ob \<Rightarrow>
          (case ob ''candidates'' of
             Some (JArr cs) \<Rightarrow>
               (case those (map candidate_parts cs) of
                  None \<Rightarrow> Inl ZodError
                | Some parsed \<Rightarrow> Inr parsed)
           | _ \<Rightarrow> Inl ZodError)
      | _ \<Rightarrow> Inl ZodError)"

text \<open>
  \<open>generateText\<close>. The key is checked before the \<open>try\<close>; the \<open>catch\<close> logs and
  rethrows, so every failure inside reaches the caller as it is.
\<close>

definition generateText :: "env \<Rightarrow> string \<Rightarrow> GeminiRequestOptions \<Rightarrow> error + string" where
  "generateText w prompt options =
     (case GEMINI_API_KEY w of
        None \<Rightarrow> Inl (Error ''GEMINI_API_KEY environment variable is not set'')
      | Some apiKey \<Rightarrow>
          if apiKey = [] then Inl (Error ''GEMINI_API_KEY environment variable is not set'')
          else
            (case fetch w
                \<lparr>url = GEMINI_API_URL @ ''/'' @ GEMINI_MODEL @ '':generateContent?key='' @ apiKey,
                 http_method = ''POST'',
                 headers = [(''Content-Type'', ''application/json'')],
                 body = Some
                   \<lparr>prompt_text = prompt,
                    generationConfig =
                      [(''maxOutputTokens'', or_default (maxTokens options) 1024),
                       (''temperature'', or_default (temperature options) (7 / 10)),
                       (''topP'', or_default (topP options) (95 / 100)),
                       (''topK'', or_default (topK options) 40)]\<rparr>\<rparr> of
               Rejected e \<Rightarrow> Inl e
             | Resolved r \<Rightarrow>
                 if \<not> ok r then
                   (case text_result r of
                      Inl e \<Rightarrow> Inl e
                    | Inr errorText \<Rightarrow>
                        Inl (Error (''Gemini API error: '' @ String_of_number (status r))))
                 else
                   bindE (json_result r) (\<lambda>data.
                   bindE (GeminiResponseSchema_parse data) (\<lambda>parsed.
                     (case parsed of
                        [] \<Rightarrow> Inl (Error ''No content in the response'')
                      | parts # _ \<Rightarrow>
                          (case parts of
                             [] \<Rightarrow> Inl (Error ''No content in the response'')
                           | t # _ \<Rightarrow> Inr t))))))"

record insights_result =
  description :: jsval
  topics :: "jsval list"

definition insights_prompt :: "string \<Rightarrow> string" where
  \<open>insights_prompt tweetHistory = ''
    Analyze this Twitter history and provide insights in JSON format:
    {
      "description": "A comprehensive description of the person",
      "topics": ["important topic 1", "important topic 2"]
    }

    Tweet history:
    '' @ tweetHistory\<close>

text \<open>
  The statements of the outer \<open>try\<close> of \<open>generateInsights\<close> up to
  \<open>const data = await response.json()\<close>: the request and the response's body.
\<close>

definition insights_fetch :: "env \<Rightarrow> string \<Rightarrow> string \<Rightarrow> error + jsval" where
  "insights_fetch w apiKey tweetHistory =
     (case fetch w
         \<lparr>url = GEMINI_API_URL @ ''/'' @ GEMINI_MODEL @ '':generateContent?key='' @ apiKey,
          http_method = ''POST'',
          headers = [(''Content-Type'', ''application/json'')],
          body = Some
            \<lparr>prompt_text = insights_prompt tweetHistory,
             generationConfig = [(''temperature'', 7 / 10), (''maxOutputTokens'', 1000)]\<rparr>\<rparr> of
        Rejected e \<Rightarrow> Inl e
      | Resolved r \<Rightarrow>
          if \<not> ok r then
            (case text_result r of
               Inl e \<Rightarrow> Inl e
             | Inr errorText \<Rightarrow>
                 Inl (Error (''Gemini API request failed: '' @ String_of_number (status r)
                        @ '' '' @ errorText)))
          else json_result r)"

text \<open>
  The statements of the inner \<open>try\<close> before the fallback: \<open>Some\<close> the pair
  returned from inside the two \<open>if\<close>s, \<open>None\<close> when control falls through to the
  fallback, \<open>Inl\<close> what is thrown. \<open>textContent.substring(0, 100)\<close> is a
  TypeError unless \<open>textContent\<close> is a string.
\<close>

definition insights_of_data :: "env \<Rightarrow> jsval \<Rightarrow> error + insights_result option" where
  \<open>insights_of_data w data =
     bindE (member data ''candidates'') (\<lambda>candidates.
     bindE (if truthy candidates
            then bindE (member candidates ''length'') (gt_zero w)
            else Inr False) (\<lambda>nonempty.
       if nonempty then
         bindE (at0 candidates) (\<lambda>candidate.
         bindE (member candidate ''content'') (\<lambda>content.
         bindE (member content ''parts'') (\<lambda>parts.
         bindE (at0 parts) (\<lambda>part.
         bindE (member part ''text'') (\<lambda>textContent.
           (case textContent of
              JStr t \<Rightarrow>
                (case jsonMatch t of
                   Some jsonStr \<Rightarrow>
                     bindE (JSON_parse w jsonStr) (\<lambda>parsed.
                     bindE (member parsed ''description'') (\<lambda>d.
                     bindE (member parsed ''topics'') (\<lambda>ts.
                       Inr (Some
                         \<lparr>description =
                            (if truthy d then d
                             else JStr ''AI couldn't generate a description''),
                          topics = (case ts of JArr xs \<Rightarrow> xs | _ \<Rightarrow> [])\<rparr>))))
                 | None \<Rightarrow> Inr None)
            | _ \<Rightarrow> Inl TypeError))))))
       else Inr None))\<close>

definition fallback_unparsed :: insights_result where
  "fallback_unparsed =
     \<lparr>description = JStr ''This user appears to be interested in technology and social media.'',
      topics = [JStr ''Technology'', JStr ''Social Media'']\<rparr>"

definition fallback_parse_error :: insights_result where
  "fallback_parse_error =
     \<lparr>description =
        JStr ''Error parsing AI response. The user appears to be active on social media.'',
      topics = [JStr ''Social Media'']\<rparr>"

definition fallback_call_failed :: insights_result where
  "fallback_call_failed =
     \<lparr>description = JStr ''Unable to analyze the Twitter profile at this time.'',
      topics = [JStr ''Unknown'']\<rparr>"

text \<open>
  \<open>generateInsights\<close>: the key is checked, and the Error thrown, before the outer
  \<open>try\<close>; the outer \<open>catch\<close> and the inner \<open>catch\<close> each return a pair of their
  own.
\<close>

definition generateInsights :: "env \<Rightarrow> string \<Rightarrow> error + insights_result" where
  "generateInsights w tweetHistory =
     (case GEMINI_API_KEY w of
        None \<Rightarrow> Inl (Error ''GEMINI_API_KEY environment variable is not set'')
      | Some apiKey \<Rightarrow>
          if apiKey = [] then Inl (Error ''GEMINI_API_KEY environment variable is not set'')
          else
            (case insights_fetch w apiKey tweetHistory of
               Inl e \<Rightarrow> Inr fallback_call_failed
             | Inr data \<Rightarrow>
                 (case insights_of_data w data of
                    Inl parseError \<Rightarrow> Inr fallback_parse_error
                  | Inr None \<Rightarrow> Inr fallback_unparsed
                  | Inr (Some r) \<Rightarrow> Inr r)))"

record translation_result =
  sourceFrame :: jsval
  targetFrame :: jsval
  translation :: jsval

definition translate_prompt :: "string \<Rightarrow> string \<Rightarrow> string" where
  \<open>translate_prompt sourceText targetHandle =
     ''Analyze the following text and translate it into a different conceptual frame.

Source text:
'' @ sourceText @ ''

First, detect and name the conceptual frame/paradigm of this text (e.g., "woo-woo", "STEM", "academic", "practical", etc.).
Then, translate this text to match @'' @ targetHandle @ '''s typical communication style and conceptual frame.
Maintain the core meaning but express it in a way that would resonate with '' @ targetHandle @ '''s perspective.

Output your response in this exact JSON format:
{
  "sourceFrame": "name of detected frame",
  "targetFrame": "name of target frame",
  "translation": "translated text"
}''\<close>

text \<open>
  \<open>translateBetweenFrames\<close>: \<open>generateText\<close> is called with
  \<open>{temperature: 0.7, maxTokens: 1024}\<close> and awaited outside the \<open>try\<close>; the
  \<open>catch\<close> logs and rethrows.
\<close>

definition translate_options :: GeminiRequestOptions where
  "translate_options =
     \<lparr>maxTokens = Some 1024, temperature = Some (7 / 10), topP = None, topK = None\<rparr>"

definition translateBetweenFrames ::
  "env \<Rightarrow> string \<Rightarrow> string \<Rightarrow> error + translation_result" where
  "translateBetweenFrames w sourceText targetHandle =
     bindE (generateText w (translate_prompt sourceText targetHandle) translate_options)
       (\<lambda>response.
          (case jsonMatch response of
             Some m \<Rightarrow>
               bindE (JSON_parse w m) (\<lambda>result.
               bindE (member result ''sourceFrame'') (\<lambda>sf.
               bindE (member result ''targetFrame'') (\<lambda>tf.
               bindE (member result ''translation'') (\<lambda>tr.
                 Inr \<lparr>sourceFrame = sf, targetFrame = tf, translation = tr\<rparr>))))
           | None \<Rightarrow> Inl (Error ''Could not parse JSON from response'')))"

section \<open>The archive client: \<open>server/services/community-archive.ts\<close>\<close>

record CommunityArchiveAPI =
  baseUrl :: string

definition CommunityArchiveAPI_new :: "env \<Rightarrow> error + CommunityArchiveAPI" where
  "CommunityArchiveAPI_new w =
     (case COMMUNITY_ARCHIVE_API_URL w of
        None \<Rightarrow> Inl (Error ''COMMUNITY_ARCHIVE_API_URL environment variable is required'')
      | Some apiUrl \<Rightarrow>
          if apiUrl = []
          then Inl (Error ''COMMUNITY_ARCHIVE_API_URL environment variable is required'')
          else Inr \<lparr>baseUrl = apiUrl\<rparr>)"

text \<open>\<open>handle.replace(/^@+/, '')\<close>: the leading run of \<open>@\<close> is removed.\<close>

definition cleanHandle :: "string \<Rightarrow> string" where
  "cleanHandle handle = dropWhile (\<lambda>c. c = CHR ''@'') handle"

text \<open>
  \<open>TweetSchema\<close>: five required properties, the others optional (absent), some
  of them nullable. The parsed tweet keeps the schema's properties only.
\<close>

definition is_string :: "jsval option \<Rightarrow> bool" where
  "is_string v = (case v of Some (JStr s) \<Rightarrow> True | _ \<Rightarrow> False)"

definition is_number :: "jsval option \<Rightarrow> bool" where
  "is_number v = (case v of Some (JNum n) \<Rightarrow> True | _ \<Rightarrow> False)"

definition is_absent :: "jsval option \<Rightarrow> bool" where
  "is_absent v = (case v of None \<Rightarrow> True | Some JUndefined \<Rightarrow> True | _ \<Rightarrow> False)"

definition is_null :: "jsval option \<Rightarrow> bool" where
  "is_null v = (case v of Some JNull \<Rightarrow> True | _ \<Rightarrow> False)"

definition TweetSchema_keys :: "string list" where
  "TweetSchema_keys =
     [''tweet_id'', ''full_text'', ''created_at'', ''favorite_count'', ''account_id'',
      ''retweet_count'', ''reply_to_tweet_id'', ''reply_to_user_id'', ''reply_to_username'',
      ''fts'', ''archive_upload_id'', ''updated_at'']"

definition TweetSchema_parse :: "jsval \<Rightarrow> obj option" where
  "TweetSchema_parse v =
     (case v of
        JObj ob \<Rightarrow>
          if is_string (ob ''tweet_id'') \<and> is_string (ob ''full_text'')
             \<and> is_string (ob ''created_at'') \<and> is_number (ob ''favorite_count'')
             \<and> is_string (ob ''account_id'')
             \<and> (is_number (ob ''retweet_count'') \<or> is_null (ob ''retweet_count'')
                  \<or> is_absent (ob ''retweet_count''))
             \<and> (is_string (ob ''reply_to_tweet_id'') \<or> is_null (ob ''reply_to_tweet_id'')
                  \<or> is_absent (ob ''reply_to_tweet_id''))
             \<and> (is_string (ob ''reply_to_user_id'') \<or> is_null (ob ''reply_to_user_id'')
                  \<or> is_absent (ob ''reply_to_user_id''))
             \<and> (is_string (ob ''reply_to_username'') \<or> is_null (ob ''reply_to_username'')
                  \<or> is_absent (ob ''reply_to_username''))
             \<and> (is_string (ob ''fts'') \<or> is_null (ob ''fts'') \<or> is_absent (ob ''fts''))
             \<and> (is_number (ob ''archive_upload_id'') \<or> is_absent (ob ''archive_upload_id''))
             \<and> (is_string (ob ''updated_at'') \<or> is_absent (ob ''updated_at''))
          then Some (\<lambda>k. if k \<in> set TweetSchema_keys then ob k else None)
          else None
      | _ \<Rightarrow> None)"

definition tweets_parse :: "jsval \<Rightarrow> error + obj list" where
  "tweets_parse data =
     (case data of
        JArr xs \<Rightarrow>
          (case those (map TweetSchema_parse xs) of
             None \<Rightarrow> Inl ZodError
           | Some tweets \<Rightarrow> Inr tweets)
      | _ \<Rightarrow> Inl ZodError)"

text \<open>The request \<open>getRecentPopularTweets\<close> passes to \<open>fetch\<close>.\<close>

definition tweets_request :: "CommunityArchiveAPI \<Rightarrow> env \<Rightarrow> int \<Rightarrow> request" where
  "tweets_request api w limit =
     (let key = (case SUPABASE_KEY w of None \<Rightarrow> [] | Some k \<Rightarrow> k)
      in \<lparr>url = baseUrl api @ ''/rest/v1/tweets?select=*&order=favorite_count.desc&limit=''
                 @ String_of_number limit,
          http_method = ''GET'',
          headers =
            [(''Accept'', ''application/json''),
             (''Content-Type'', ''application/json''),
             (''apikey'', key),
             (''Authorization'', ''Bearer '' @ key)],
          body = None\<rparr>)"

text \<open>
  \<open>getRecentPopularTweets(handle, limit = 25)\<close>: a missing \<open>limit\<close> is 25. The
  cleaned handle goes into two log lines and nowhere else; \<open>log\<close> prints to the
  console and returns, and is not part of the model. The \<open>catch\<close> logs and
  rethrows.
\<close>

definition getRecentPopularTweets ::
  "CommunityArchiveAPI \<Rightarrow> env \<Rightarrow> string \<Rightarrow> int option \<Rightarrow> error + obj list" where
  "getRecentPopularTweets api w handle limit_arg =
     (let limit = (case limit_arg of None \<Rightarrow> 25 | Some n \<Rightarrow> n);
          cleaned = cleanHandle handle
      in case fetch w (tweets_request api w limit) of
           Rejected e \<Rightarrow> Inl e
         | Resolved r \<Rightarrow>
             if \<not> ok r then
               (case text_result r of
                  Inl e \<Rightarrow> Inl e
                | Inr errorText \<Rightarrow> Inl (Error (''Failed to fetch tweets: '' @ statusText r)))
             else bindE (json_result r) tweets_parse)"

section \<open>Reachable states and sample inputs\<close>

text \<open>
  The states of a repository: the fresh one, and whatever the four mutating
  operations make of a state, with any payloads.
\<close>

inductive reachable :: "MemStorage \<Rightarrow> bool" where
  reachable_new: "reachable MemStorage_new"
| reachable_createUser: "reachable s \<Longrightarrow> reachable (snd (createUser p s))"
| reachable_createInsight: "reachable s \<Longrightarrow> reachable (snd (createInsight p s))"
| reachable_updateInsight: "reachable s \<Longrightarrow> reachable (snd (updateInsight i d s))"
| reachable_createComparison: "reachable s \<Longrightarrow> reachable (snd (createComparison p now s))"

text \<open>
  The states reached with payloads, and update data, that have no \<open>id\<close>
  property; the ids the stored records carry, in insertion order.
\<close>

inductive reachable_plain :: "MemStorage \<Rightarrow> bool" where
  plain_new: "reachable_plain MemStorage_new"
| plain_createUser:
    "reachable_plain s \<Longrightarrow> p ''id'' = None \<Longrightarrow> reachable_plain (snd (createUser p s))"
| plain_createInsight:
    "reachable_plain s \<Longrightarrow> p ''id'' = None \<Longrightarrow> reachable_plain (snd (createInsight p s))"
| plain_updateInsight:
    "reachable_plain s \<Longrightarrow> d ''id'' = None \<Longrightarrow> reachable_plain (snd (updateInsight i d s))"
| plain_createComparison:
    "reachable_plain s \<Longrightarrow> p ''id'' = None \<Longrightarrow>
       reachable_plain (snd (createComparison p now s))"

definition ids_match :: "obj jsmap \<Rightarrow> bool" where
  "ids_match m = list_all (\<lambda>(k, r). property r ''id'' = JNum k) m"

definition record_ids :: "obj jsmap \<Rightarrow> jsval list" where
  "record_ids m = map (\<lambda>r. property r ''id'') (Map_values m)"

text \<open>The keys of a map are \<open>1, 2, ..., c - 1\<close> in this order, \<open>c\<close> its counter.\<close>

definition keys_upto :: "'v jsmap \<Rightarrow> int \<Rightarrow> bool" where
  "keys_upto m c = (1 \<le> c \<and> map fst m = [1..c - 1])"

definition storage_inv :: "MemStorage \<Rightarrow> bool" where
  "storage_inv s =
     (keys_upto (users s) (user (currentIds s))
      \<and> keys_upto (insights s) (insight (currentIds s))
      \<and> keys_upto (comparisons s) (comparison (currentIds s)))"

text \<open>Sample payloads without an \<open>id\<close> property, and one that carries an \<open>id\<close>.\<close>

definition alice_payload :: obj where
  "alice_payload = [''username'' \<mapsto> JStr ''alice'', ''twitterHandle'' \<mapsto> JStr ''alice'']"

definition payload_with_id :: obj where
  "payload_with_id = alice_payload(''id'' \<mapsto> JNum 7)"

definition insight_payload :: obj where
  "insight_payload = [''userId'' \<mapsto> JNum 5, ''description'' \<mapsto> JStr ''likes maps'']"

definition comparison_payload :: obj where
  "comparison_payload =
     [''userAId'' \<mapsto> JNum 1, ''userBId'' \<mapsto> JNum 2,
      ''argumentText'' \<mapsto> JStr ''Find meaningful connection points'',
      ''explanation'' \<mapsto> JStr ''both like maps'',
      ''createdAt'' \<mapsto> JDate 1000]"

definition new_description :: obj where
  "new_description = [''description'' \<mapsto> JStr ''likes charts'']"

definition alice_store :: MemStorage where
  "alice_store = snd (createUser alice_payload MemStorage_new)"

definition insight_store :: MemStorage where
  "insight_store = snd (createInsight insight_payload MemStorage_new)"

text \<open>
  A world for the examples. Its \<open>fetch\<close> answers every request with status 200
  and the body \<open>{candidates: [{content: {parts: [{text: t}]}}]}\<close>. Its
  \<open>JSON.parse\<close> is the real one on the two texts the examples parse, \<open>{}\<close> and
  \<open>{oops}\<close> (a SyntaxError); no example parses another text, compares a
  value that is not a number with zero, or reads the body as text.
\<close>

definition gemini_data :: "string \<Rightarrow> jsval" where
  "gemini_data t =
     JObj [''candidates'' \<mapsto>
       JArr [JObj [''content'' \<mapsto> JObj [''parts'' \<mapsto> JArr [JObj [''text'' \<mapsto> JStr t]]]]]]"

definition gemini_response :: "string \<Rightarrow> response" where
  "gemini_response t =
     \<lparr>ok = True, status = 200, statusText = ''OK'',
      text_result = Inl TypeError, json_result = Inr (gemini_data t)\<rparr>"

definition fetch_sample :: "string \<Rightarrow> request \<Rightarrow> fetch_outcome" where
  "fetch_sample t req = Resolved (gemini_response t)"

definition JSON_parse_sample :: "string \<Rightarrow> error + jsval" where
  "JSON_parse_sample s = (if s = ''{}'' then Inr (JObj Map.empty) else Inl SyntaxError)"

definition gt_zero_coerced_sample :: "jsval \<Rightarrow> error + bool" where
  "gt_zero_coerced_sample v = Inr False"

definition sample_world :: "string option \<Rightarrow> string \<Rightarrow> env" where
  "sample_world key t =
     \<lparr>GEMINI_API_KEY = key, SUPABASE_KEY = None,
      COMMUNITY_ARCHIVE_API_URL = Some ''https://archive.example'',
      fetch = fetch_sample t, JSON_parse = JSON_parse_sample,
      gt_zero_coerced = gt_zero_coerced_sample\<rparr>"

text \<open>Two worlds whose \<open>fetch\<close> fails: it rejects, or it answers with status 500.\<close>

definition fetch_rejects :: "request \<Rightarrow> fetch_outcome" where
  "fetch_rejects req = Rejected NetworkError"

definition fetch_not_ok :: "request \<Rightarrow> fetch_outcome" where
  "fetch_not_ok req =
     Resolved \<lparr>ok = False, status = 500, statusText = ''Internal Server Error'',
               text_result = Inr ''quota exceeded'', json_result = Inl SyntaxError\<rparr>"

definition failing_world :: "(request \<Rightarrow> fetch_outcome) \<Rightarrow> env" where
  "failing_world f = (sample_world (Some ''key'') ''{}'')\<lparr>fetch := f\<rparr>"

text \<open>
  An archive for the examples: its \<open>fetch\<close> answers the request for the 25
  most liked tweets with one tweet and rejects every other request.
\<close>

definition sample_api :: CommunityArchiveAPI where
  "sample_api = \<lparr>baseUrl = ''https://archive.example''\<rparr>"

definition sample_tweets :: jsval where
  "sample_tweets =
     JArr [JObj [''tweet_id'' \<mapsto> JStr ''1'', ''full_text'' \<mapsto> JStr ''hello'',
                 ''created_at'' \<mapsto> JStr ''2024-01-01'', ''favorite_count'' \<mapsto> JNum 3,
                 ''account_id'' \<mapsto> JStr ''42'']]"

definition archive_fetch :: "request \<Rightarrow> fetch_outcome" where
  "archive_fetch req =
     (if url req
          = ''https://archive.example/rest/v1/tweets?select=*&order=favorite_count.desc&limit=25''
      then Resolved \<lparr>ok = True, status = 200, statusText = ''OK'',
                     text_result = Inl TypeError, json_result = Inr sample_tweets\<rparr>
      else Rejected NetworkError)"

definition archive_world :: env where
  "archive_world = (sample_world None ''{}'')\<lparr>fetch := archive_fetch\<rparr>"

section \<open>Properties of the repository\<close>

lemma Map_get_set_same: "Map_get (Map_set k v m) k = Some v"
  by (simp add: Map_get_def Map_set_def update_conv')

lemma Map_get_set_other: "k' \<noteq> k \<Longrightarrow> Map_get (Map_set k v m) k' = Map_get m k'"
  by (simp add: Map_get_def Map_set_def update_conv')

lemma find_values_update_new:
  "List.find P (map snd m) = None \<Longrightarrow> P v \<Longrightarrow> List.find P (map snd (AList.update k v m)) = Some v"
  by (induction m) (auto split: if_splits)

lemma keys_Map_set_fresh:
  "k \<notin> fst ` set m \<Longrightarrow> map fst (Map_set k v m) = map fst m @ [k]"
  by (simp add: Map_set_def update_keys)

lemma keys_Map_set_present:
  "k \<in> fst ` set m \<Longrightarrow> map fst (Map_set k v m) = map fst m"
  by (simp add: Map_set_def update_keys)

lemma keys_upto_Map_set: "keys_upto m c \<Longrightarrow> keys_upto (Map_set c v m) (c + 1)"
proof -
  assume h: "keys_upto m c"
  then have c: "1 \<le> c" and ks: "map fst m = [1..c - 1]"
    by (simp_all add: keys_upto_def)
  have "c \<notin> set (map fst m)" using ks by simp
  then have "c \<notin> fst ` set m" by simp
  then have "map fst (Map_set c v m) = [1..c - 1] @ [c]"
    using ks by (simp add: keys_Map_set_fresh)
  also have "\<dots> = [1..c]" using c upto_rec2[of 1 c] by simp
  finally show ?thesis using c by (simp add: keys_upto_def)
qed

lemma keys_upto_update: "keys_upto m c \<Longrightarrow> Map_get m i = Some x \<Longrightarrow> keys_upto (Map_set i v m) c"
proof -
  assume h: "keys_upto m c" and g: "Map_get m i = Some x"
  from g have "i \<in> fst ` set m"
    by (metis Map_get_def domI dom_map_of_conv_image_fst)
  then show ?thesis using h by (simp add: keys_upto_def keys_Map_set_present)
qed

lemma storage_inv_new: "storage_inv MemStorage_new"
  by (simp add: storage_inv_def MemStorage_new_def keys_upto_def)

lemma storage_inv_createUser: "storage_inv s \<Longrightarrow> storage_inv (snd (createUser p s))"
  by (simp add: storage_inv_def createUser_def Let_def keys_upto_Map_set)

lemma storage_inv_createInsight: "storage_inv s \<Longrightarrow> storage_inv (snd (createInsight p s))"
  by (simp add: storage_inv_def createInsight_def Let_def keys_upto_Map_set)

lemma storage_inv_createComparison:
  "storage_inv s \<Longrightarrow> storage_inv (snd (createComparison p now s))"
  by (simp add: storage_inv_def createComparison_def Let_def keys_upto_Map_set)

lemma storage_inv_updateInsight: "storage_inv s \<Longrightarrow> storage_inv (snd (updateInsight i d s))"
  by (auto simp: storage_inv_def updateInsight_def Let_def keys_upto_update split: option.splits)

lemma reachable_storage_inv: "reachable s \<Longrightarrow> storage_inv s"
  by (induction rule: reachable.induct)
     (simp_all add: storage_inv_new storage_inv_createUser storage_inv_createInsight
        storage_inv_createComparison storage_inv_updateInsight)

subsection \<open>Updating an insight\<close>

text \<open>
  Claim C5. For every id under which the insight map holds no entry,
  \<open>updateInsight\<close> throws the Error "Insight not found: id" and returns the
  store as it was. For every id that holds a record, it returns the record with
  the properties of \<open>updateData\<close> written over the existing ones (every other
  property kept), stores that record under the same id, and changes nothing
  else: no other insight, no user, no comparison and no counter.
\<close>

theorem updateInsight_spec:
  "(Map_get (insights s) i = None \<longrightarrow>
      updateInsight i d s = (Inl (Error (''Insight not found: '' @ String_of_number i)), s))
   \<and> (\<forall>existing. Map_get (insights s) i = Some existing \<longrightarrow>
         fst (updateInsight i d s) = Inr (existing ++ d)
         \<and> (\<forall>k. (existing ++ d) k = (case d k of None \<Rightarrow> existing k | Some v \<Rightarrow> Some v))
         \<and> Map_get (insights (snd (updateInsight i d s))) i = Some (existing ++ d)
         \<and> (\<forall>j. j \<noteq> i \<longrightarrow>
               Map_get (insights (snd (updateInsight i d s))) j = Map_get (insights s) j)
         \<and> users (snd (updateInsight i d s)) = users s
         \<and> comparisons (snd (updateInsight i d s)) = comparisons s
         \<and> currentIds (snd (updateInsight i d s)) = currentIds s)"
  by (auto simp: updateInsight_def Let_def Map_get_set_same Map_get_set_other map_add_def
           split: option.splits)

text \<open>
  On the store holding one insight (id 1): id 2 is not found; updating id 1 with
  a new description replaces the description and keeps the owner.
\<close>

theorem updateInsight_spec_witness:
  "updateInsight 2 new_description insight_store
     = (Inl (Error ''Insight not found: 2''), insight_store)
   \<and> Map_get (insights insight_store) 1 = Some ([''id'' \<mapsto> JNum 1] ++ insight_payload)
   \<and> fst (updateInsight 1 new_description insight_store)
       = Inr (([''id'' \<mapsto> JNum 1] ++ insight_payload) ++ new_description)
   \<and> property (([''id'' \<mapsto> JNum 1] ++ insight_payload) ++ new_description) ''description''
       = JStr ''likes charts''
   \<and> property (([''id'' \<mapsto> JNum 1] ++ insight_payload) ++ new_description) ''userId''
       = JNum 5"
proof -
  have none: "Map_get (insights insight_store) 2 = None"
    by (simp add: insight_store_def createInsight_def MemStorage_new_def Let_def
          Map_get_def Map_set_def)
  have some: "Map_get (insights insight_store) 1 = Some ([''id'' \<mapsto> JNum 1] ++ insight_payload)"
    by (simp add: insight_store_def createInsight_def MemStorage_new_def Let_def
          Map_get_def Map_set_def)
  have d2: "String_of_number 2 = ''2''"
    by (simp add: String_of_number_def digits.simps)
  show ?thesis
    using updateInsight_spec [of insight_store 2 new_description]
      updateInsight_spec [of insight_store 1 new_description] none some d2
    by (simp add: property_def map_add_def new_description_def insight_payload_def)
qed

subsection \<open>Creating records\<close>

lemma createUser_fst: "fst (createUser p s) = [''id'' \<mapsto> JNum (user (currentIds s))] ++ p"
  by (simp add: createUser_def Let_def)

lemma createInsight_fst:
  "fst (createInsight p s) = [''id'' \<mapsto> JNum (insight (currentIds s))] ++ p"
  by (simp add: createInsight_def Let_def)

lemma createComparison_fst:
  "fst (createComparison p now s)
     = ([''id'' \<mapsto> JNum (comparison (currentIds s))] ++ p)(''createdAt'' \<mapsto> JDate now)"
  by (simp add: createComparison_def Let_def)

lemma createUser_users:
  "users (snd (createUser p s)) = Map_set (user (currentIds s)) (fst (createUser p s)) (users s)"
  by (simp add: createUser_def Let_def)

lemma createInsight_insights:
  "insights (snd (createInsight p s))
     = Map_set (insight (currentIds s)) (fst (createInsight p s)) (insights s)"
  by (simp add: createInsight_def Let_def)

lemma createComparison_comparisons:
  "comparisons (snd (createComparison p now s))
     = Map_set (comparison (currentIds s)) (fst (createComparison p now s)) (comparisons s)"
  by (simp add: createComparison_def Let_def)

lemma create_counters:
  "user (currentIds (snd (createUser p s))) = user (currentIds s) + 1"
  "insight (currentIds (snd (createInsight p s))) = insight (currentIds s) + 1"
  "comparison (currentIds (snd (createComparison p now s))) = comparison (currentIds s) + 1"
  by (simp_all add: createUser_def createInsight_def createComparison_def Let_def)

text \<open>
  Claim C6. For every payload passed to \<open>createComparison\<close>, one that carries a
  \<open>createdAt\<close> of its own included, the returned record's \<open>createdAt\<close> is the
  time the clock gave at the insertion, its \<open>userAId\<close> and \<open>userBId\<close> are the
  payload's, and the record stored (under the counter's value) is the record
  returned.
\<close>

theorem createComparison_createdAt:
  "property (fst (createComparison p now s)) ''createdAt'' = JDate now
   \<and> property (fst (createComparison p now s)) ''userAId'' = property p ''userAId''
   \<and> property (fst (createComparison p now s)) ''userBId'' = property p ''userBId''
   \<and> getComparison (comparison (currentIds s)) (snd (createComparison p now s))
       = Some (fst (createComparison p now s))"
  by (simp add: createComparison_fst createComparison_comparisons getComparison_def
        Map_get_set_same property_def map_add_def split: option.splits)

text \<open>A payload stamped 1000 by its caller, inserted at time 2000.\<close>

theorem createComparison_createdAt_witness:
  "property comparison_payload ''createdAt'' = JDate 1000
   \<and> property (fst (createComparison comparison_payload 2000 MemStorage_new)) ''createdAt''
       = JDate 2000
   \<and> property (fst (createComparison comparison_payload 2000 MemStorage_new)) ''userAId''
       = JNum 1
   \<and> property (fst (createComparison comparison_payload 2000 MemStorage_new)) ''userBId''
       = JNum 2
   \<and> getComparison 1 (snd (createComparison comparison_payload 2000 MemStorage_new))
       = Some (fst (createComparison comparison_payload 2000 MemStorage_new))"
proof -
  have c: "comparison (currentIds MemStorage_new) = 1"
    by (simp add: MemStorage_new_def)
  have p: "property comparison_payload ''createdAt'' = JDate 1000"
    "property comparison_payload ''userAId'' = JNum 1"
    "property comparison_payload ''userBId'' = JNum 2"
    by (simp_all add: comparison_payload_def property_def)
  show ?thesis
    using createComparison_createdAt [of comparison_payload 2000 MemStorage_new] c p
    by simp
qed

text \<open>
  Claim C9. When the payload of \<open>createUser\<close>, \<open>createInsight\<close> or
  \<open>createComparison\<close> has an \<open>id\<close> property, the returned record's \<open>id\<close> is
  the payload's value, while the record is stored under the counter's value. So
  the key and the record's \<open>id\<close> differ whenever the payload's id is not the
  counter's value, and then a lookup under the record's \<open>id\<close> gives what the map
  held there before the call, which is nothing when that key was never used.
\<close>

theorem create_payload_id:
  "p ''id'' = Some v \<Longrightarrow>
     property (fst (createUser p s)) ''id'' = v
     \<and> Map_get (users (snd (createUser p s))) (user (currentIds s)) = Some (fst (createUser p s))
     \<and> (\<forall>i. v = JNum i \<and> i \<noteq> user (currentIds s) \<longrightarrow>
           getUser i (snd (createUser p s)) = getUser i s)
     \<and> property (fst (createInsight p s)) ''id'' = v
     \<and> Map_get (insights (snd (createInsight p s))) (insight (currentIds s))
         = Some (fst (createInsight p s))
     \<and> (\<forall>i. v = JNum i \<and> i \<noteq> insight (currentIds s) \<longrightarrow>
           Map_get (insights (snd (createInsight p s))) i = Map_get (insights s) i)
     \<and> property (fst (createComparison p now s)) ''id'' = v
     \<and> Map_get (comparisons (snd (createComparison p now s))) (comparison (currentIds s))
         = Some (fst (createComparison p now s))
     \<and> (\<forall>i. v = JNum i \<and> i \<noteq> comparison (currentIds s) \<longrightarrow>
           getComparison i (snd (createComparison p now s)) = getComparison i s)"
  by (simp add: createUser_fst createInsight_fst createComparison_fst createUser_users
        createInsight_insights createComparison_comparisons getUser_def getComparison_def
        Map_get_set_same Map_get_set_other property_def map_add_def)

text \<open>
  A payload with \<open>id: 7\<close> on a fresh repository: the record says 7, the map
  holds it under 1, and \<open>getUser(7)\<close> finds nothing.
\<close>

theorem create_payload_id_witness:
  "payload_with_id ''id'' = Some (JNum 7)
   \<and> property (fst (createUser payload_with_id MemStorage_new)) ''id'' = JNum 7
   \<and> Map_get (users (snd (createUser payload_with_id MemStorage_new))) 1
       = Some (fst (createUser payload_with_id MemStorage_new))
   \<and> getUser 7 (snd (createUser payload_with_id MemStorage_new)) = None"
proof -
  have h: "payload_with_id ''id'' = Some (JNum 7)"
    by (simp add: payload_with_id_def)
  have c: "user (currentIds MemStorage_new) = 1" "getUser 7 MemStorage_new = None"
    by (simp_all add: MemStorage_new_def getUser_def Map_get_def)
  show ?thesis
    using create_payload_id [where p = payload_with_id and v = "JNum 7" and s = MemStorage_new and now = 0] h c
    by simp
qed

text \<open>
  Claim C2 as stated fails: \<open>getInsight\<close> takes the id of the owning user, not
  the insight's id. The first insight created (for user 5) is returned with id
  1, and \<open>getInsight(1)\<close> finds nothing.
\<close>

theorem create_get_by_id_counterexample:
  "property (fst (createInsight insight_payload MemStorage_new)) ''id'' = JNum 1
   \<and> getInsight 1 (snd (createInsight insight_payload MemStorage_new)) = None"
  by (simp add: createInsight_def MemStorage_new_def Let_def getInsight_def Map_values_def
        Map_set_def insight_payload_def property_def map_add_def)

text \<open>
  Claim C2, amended. A record that \<open>createUser\<close> or \<open>createComparison\<close> returns
  for a payload without an \<open>id\<close> property has the counter's value as its id and
  is what \<open>getUser\<close>, \<open>getComparison\<close> return for that id. A record that
  \<open>createInsight\<close> returns for a payload whose \<open>userId\<close> is a number \<open>u\<close> is
  what \<open>getInsight(u)\<close> returns, provided no insight stored before belongs to
  \<open>u\<close>.
\<close>

theorem create_get_roundtrip:
  "(p ''id'' = None \<longrightarrow>
      property (fst (createUser p s)) ''id'' = JNum (user (currentIds s))
      \<and> getUser (user (currentIds s)) (snd (createUser p s)) = Some (fst (createUser p s)))
   \<and> (p ''id'' = None \<longrightarrow>
      property (fst (createComparison p now s)) ''id'' = JNum (comparison (currentIds s))
      \<and> getComparison (comparison (currentIds s)) (snd (createComparison p now s))
          = Some (fst (createComparison p now s)))
   \<and> (\<forall>u. p ''userId'' = Some (JNum u) \<and> getInsight u s = None \<longrightarrow>
         property (fst (createInsight p s)) ''userId'' = JNum u
         \<and> getInsight u (snd (createInsight p s)) = Some (fst (createInsight p s)))"
proof -
  have ins: "getInsight u (snd (createInsight p s)) = Some (fst (createInsight p s))"
    if "p ''userId'' = Some (JNum u)" "getInsight u s = None" for u
  proof -
    have "property (fst (createInsight p s)) ''userId'' = JNum u"
      using that(1) by (simp add: createInsight_fst property_def map_add_def)
    then show ?thesis
      using that(2) find_values_update_new
        [of "\<lambda>ins. property ins ''userId'' = JNum u" "insights s" "fst (createInsight p s)"
            "insight (currentIds s)"]
      by (simp add: getInsight_def Map_values_def createInsight_insights Map_set_def)
  qed
  show ?thesis
    using ins
    by (simp add: createUser_fst createComparison_fst createInsight_fst createUser_users
          createComparison_comparisons getUser_def getComparison_def Map_get_set_same
          property_def map_add_def)
qed

text \<open>The three round trips on a fresh repository.\<close>

theorem create_get_roundtrip_witness:
  "alice_payload ''id'' = None
   \<and> property (fst (createUser alice_payload MemStorage_new)) ''id'' = JNum 1
   \<and> getUser 1 (snd (createUser alice_payload MemStorage_new))
       = Some (fst (createUser alice_payload MemStorage_new))
   \<and> comparison_payload ''id'' = None
   \<and> getComparison 1 (snd (createComparison comparison_payload 2000 MemStorage_new))
       = Some (fst (createComparison comparison_payload 2000 MemStorage_new))
   \<and> insight_payload ''userId'' = Some (JNum 5)
   \<and> getInsight 5 MemStorage_new = None
   \<and> getInsight 5 (snd (createInsight insight_payload MemStorage_new))
       = Some (fst (createInsight insight_payload MemStorage_new))"
proof -
  have h: "alice_payload ''id'' = None" "comparison_payload ''id'' = None"
    "insight_payload ''userId'' = Some (JNum 5)" "getInsight 5 MemStorage_new = None"
    by (simp_all add: alice_payload_def comparison_payload_def insight_payload_def
          getInsight_def MemStorage_new_def Map_values_def)
  have c: "user (currentIds MemStorage_new) = 1" "comparison (currentIds MemStorage_new) = 1"
    by (simp_all add: MemStorage_new_def)
  show ?thesis
    using create_get_roundtrip [of alice_payload MemStorage_new 2000]
      create_get_roundtrip [of comparison_payload MemStorage_new 2000]
      create_get_roundtrip [of insight_payload MemStorage_new 2000] h c
    by simp
qed

text \<open>
  Claim C1 at a payload that carries an id. Two calls of \<open>createUser\<close> with
  \<open>id: 7\<close> on a fresh repository both return a record whose id is 7, neither 1
  nor increasing nor unique, while the keys the records are stored under are 1
  and 2.
\<close>

theorem create_ids_not_ascending:
  "payload_with_id ''id'' = Some (JNum 7)
   \<and> property (fst (createUser payload_with_id MemStorage_new)) ''id'' = JNum 7
   \<and> property (fst (createUser payload_with_id
                      (snd (createUser payload_with_id MemStorage_new)))) ''id'' = JNum 7
   \<and> map fst (users (snd (createUser payload_with_id
                             (snd (createUser payload_with_id MemStorage_new))))) = [1, 2]"
  by (simp add: createUser_def MemStorage_new_def Let_def Map_set_def payload_with_id_def
        property_def map_add_def)

text \<open>
  For a payload without an \<open>id\<close> property the record's id is the counter's
  value. In every reachable state the keys of each map are
  \<open>1, ..., counter - 1\<close> in insertion order (\<open>reachable_storage_inv\<close>), and
  so are the ids of the stored records when no payload carried an id
  (\<open>plain_ids_ascending\<close>).
\<close>

lemma create_id_from_counter:
  "p ''id'' = None \<Longrightarrow>
     property (fst (createUser p s)) ''id'' = JNum (user (currentIds s))
     \<and> property (fst (createInsight p s)) ''id'' = JNum (insight (currentIds s))
     \<and> property (fst (createComparison p now s)) ''id'' = JNum (comparison (currentIds s))"
  by (simp add: createUser_fst createInsight_fst createComparison_fst property_def map_add_def)


lemma ids_match_Map_set:
  "ids_match m \<Longrightarrow> property r ''id'' = JNum k \<Longrightarrow> ids_match (Map_set k r m)"
  by (induction m) (auto simp: ids_match_def Map_set_def)

lemma ids_match_lookup:
  "ids_match m \<Longrightarrow> Map_get m i = Some r \<Longrightarrow> property r ''id'' = JNum i"
  by (induction m) (auto simp: ids_match_def Map_get_def split: if_splits)

lemma ids_match_record_ids: "ids_match m \<Longrightarrow> record_ids m = map JNum (map fst m)"
  by (induction m) (auto simp: ids_match_def record_ids_def Map_values_def)

lemma reachable_plain_reachable: "reachable_plain s \<Longrightarrow> reachable s"
  by (induction rule: reachable_plain.induct) (auto intro: reachable.intros)

lemma reachable_plain_ids_match:
  "reachable_plain s \<Longrightarrow>
     ids_match (users s) \<and> ids_match (insights s) \<and> ids_match (comparisons s)"
proof (induction rule: reachable_plain.induct)
  case plain_new
  show ?case by (simp add: MemStorage_new_def ids_match_def)
next
  case (plain_createUser s p)
  then show ?case
    by (simp add: createUser_def Let_def ids_match_Map_set property_def map_add_def)
next
  case (plain_createInsight s p)
  then show ?case
    by (simp add: createInsight_def Let_def ids_match_Map_set property_def map_add_def)
next
  case (plain_updateInsight s d i)
  show ?case
  proof (cases "Map_get (insights s) i")
    case None
    with plain_updateInsight show ?thesis by (simp add: updateInsight_def)
  next
    case (Some existing)
    with plain_updateInsight have "property existing ''id'' = JNum i"
      using ids_match_lookup by blast
    with plain_updateInsight(2) have "property (existing ++ d) ''id'' = JNum i"
      by (simp add: property_def map_add_def)
    with Some plain_updateInsight show ?thesis
      by (simp add: updateInsight_def Let_def ids_match_Map_set)
  qed
next
  case (plain_createComparison s p now)
  then show ?case
    by (simp add: createComparison_def Let_def ids_match_Map_set property_def map_add_def)
qed

lemma plain_ids_ascending:
  assumes "reachable_plain s"
  shows "record_ids (users s) = map JNum [1..user (currentIds s) - 1]
     \<and> record_ids (insights s) = map JNum [1..insight (currentIds s) - 1]
     \<and> record_ids (comparisons s) = map JNum [1..comparison (currentIds s) - 1]"
proof -
  from assms have "storage_inv s"
    by (simp add: reachable_plain_reachable reachable_storage_inv)
  then have "map fst (users s) = [1..user (currentIds s) - 1]"
    "map fst (insights s) = [1..insight (currentIds s) - 1]"
    "map fst (comparisons s) = [1..comparison (currentIds s) - 1]"
    by (simp_all add: storage_inv_def keys_upto_def)
  with reachable_plain_ids_match [OF assms] show ?thesis
    by (simp add: ids_match_record_ids)
qed

subsection \<open>Looking a user up by handle\<close>

lemma find_first:
  "List.find P xs = Some x \<Longrightarrow>
     P x \<and> (\<exists>pre post. xs = pre @ x # post \<and> (\<forall>y \<in> set pre. \<not> P y))"
proof (induction xs)
  case Nil
  then show ?case by simp
next
  case (Cons a xs)
  show ?case
  proof (cases "P a")
    case True
    with Cons.prems have "a = x" by simp
    with True have "P x \<and> a # xs = [] @ x # xs \<and> (\<forall>y \<in> set []. \<not> P y)" by simp
    then show ?thesis by blast
  next
    case False
    with Cons.prems have "List.find P xs = Some x" by simp
    with Cons.IH obtain pre post where
      h: "P x" "xs = pre @ x # post" "\<forall>y \<in> set pre. \<not> P y" by blast
    with False have "a # xs = (a # pre) @ x # post \<and> (\<forall>y \<in> set (a # pre). \<not> P y)" by simp
    with h(1) show ?thesis by blast
  qed
qed

lemma find_exists: "\<exists>x \<in> set xs. P x \<Longrightarrow> \<exists>y. List.find P xs = Some y"
  by (cases "List.find P xs") (auto simp: find_None_iff)

text \<open>
  Claim C7. \<open>getUserByTwitterHandle\<close> scans the users in insertion order and
  compares the stored handle with the argument as it is: the user returned has
  exactly that handle and no user before it has; some user is returned whenever
  one has that handle. A lookup with \<open>@\<close> in front of \<open>h\<close> never returns a user
  stored with handle \<open>h\<close>, and finds nothing when every user is stored with
  \<open>h\<close>. The archive client's \<open>cleanHandle\<close> is what removes a leading \<open>@\<close>.
\<close>

theorem getUserByTwitterHandle_exact:
  "(\<forall>u. getUserByTwitterHandle h s = Some u \<longrightarrow>
        property u ''twitterHandle'' = JStr h
        \<and> (\<exists>pre post. Map_values (users s) = pre @ u # post
              \<and> (\<forall>x \<in> set pre. property x ''twitterHandle'' \<noteq> JStr h)))
   \<and> ((\<exists>u \<in> set (Map_values (users s)). property u ''twitterHandle'' = JStr h) \<longrightarrow>
        (\<exists>u. getUserByTwitterHandle h s = Some u))
   \<and> (\<forall>u. property u ''twitterHandle'' = JStr h \<longrightarrow>
        getUserByTwitterHandle (CHR ''@'' # h) s \<noteq> Some u)
   \<and> ((\<forall>u \<in> set (Map_values (users s)). property u ''twitterHandle'' = JStr h) \<longrightarrow>
        getUserByTwitterHandle (CHR ''@'' # h) s = None)
   \<and> cleanHandle (CHR ''@'' # h) = cleanHandle h
   \<and> ((\<forall>c \<in> set (take 1 h). c \<noteq> CHR ''@'') \<longrightarrow> cleanHandle (CHR ''@'' # h) = h)"
proof -
  have first: "property u ''twitterHandle'' = JStr h
        \<and> (\<exists>pre post. Map_values (users s) = pre @ u # post
              \<and> (\<forall>x \<in> set pre. property x ''twitterHandle'' \<noteq> JStr h))"
    if "getUserByTwitterHandle h s = Some u" for u
    using that find_first [of "\<lambda>u. property u ''twitterHandle'' = JStr h" "Map_values (users s)" u]
    by (simp add: getUserByTwitterHandle_def)
  have ex: "\<exists>u. getUserByTwitterHandle h s = Some u"
    if "\<exists>u \<in> set (Map_values (users s)). property u ''twitterHandle'' = JStr h"
    using that find_exists [of "Map_values (users s)" "\<lambda>u. property u ''twitterHandle'' = JStr h"]
    by (simp add: getUserByTwitterHandle_def)
  have no: "getUserByTwitterHandle (CHR ''@'' # h) s \<noteq> Some u"
    if "property u ''twitterHandle'' = JStr h" for u
  proof
    assume "getUserByTwitterHandle (CHR ''@'' # h) s = Some u"
    then have "property u ''twitterHandle'' = JStr (CHR ''@'' # h)"
      using find_first
        [of "\<lambda>u. property u ''twitterHandle'' = JStr (CHR ''@'' # h)" "Map_values (users s)" u]
      by (simp add: getUserByTwitterHandle_def)
    with that show False by simp
  qed
  have none: "getUserByTwitterHandle (CHR ''@'' # h) s = None"
    if "\<forall>u \<in> set (Map_values (users s)). property u ''twitterHandle'' = JStr h"
    using that by (auto simp: getUserByTwitterHandle_def find_None_iff)
  have clean: "cleanHandle (CHR ''@'' # h) = cleanHandle h"
    by (simp add: cleanHandle_def)
  have bare: "cleanHandle (CHR ''@'' # h) = h" if "\<forall>c \<in> set (take 1 h). c \<noteq> CHR ''@''"
    using that by (cases h) (simp_all add: cleanHandle_def)
  show ?thesis
    using first ex no none clean bare by blast
qed

text \<open>The repository holding the one user "alice".\<close>

theorem getUserByTwitterHandle_exact_witness:
  "Map_values (users alice_store) = [[''id'' \<mapsto> JNum 1] ++ alice_payload]
   \<and> property ([''id'' \<mapsto> JNum 1] ++ alice_payload) ''twitterHandle'' = JStr ''alice''
   \<and> getUserByTwitterHandle ''alice'' alice_store = Some ([''id'' \<mapsto> JNum 1] ++ alice_payload)
   \<and> getUserByTwitterHandle ''@alice'' alice_store = None
   \<and> cleanHandle ''@alice'' = ''alice''"
proof -
  have vs: "Map_values (users alice_store) = [[''id'' \<mapsto> JNum 1] ++ alice_payload]"
    by (simp add: alice_store_def createUser_def MemStorage_new_def Let_def Map_values_def
          Map_set_def)
  have hd: "property ([''id'' \<mapsto> JNum 1] ++ alice_payload) ''twitterHandle'' = JStr ''alice''"
    by (simp add: alice_payload_def property_def map_add_def)
  show ?thesis
    using getUserByTwitterHandle_exact [of "''alice''" alice_store] vs hd
    by (auto simp: Cons_eq_append_conv)
qed

section \<open>Properties of the insight generator\<close>

subsection \<open>A response that conforms to the schema\<close>

lemma map_eq_Some_Cons:
  "those (map f xs) = Some (y # ys) \<Longrightarrow> \<exists>x xs'. xs = x # xs' \<and> f x = Some y"
  by (cases xs) (auto split: option.splits)

lemma part_text_Some:
  assumes "part_text p = Some t"
  shows "\<exists>po. p = JObj po \<and> po ''text'' = Some (JStr t)"
proof -
  from assms obtain po where p: "p = JObj po"
    by (cases p) (simp_all add: part_text_def)
  with assms obtain v where v: "po ''text'' = Some v"
    by (cases "po ''text''") (simp_all add: part_text_def)
  with assms p have "v = JStr t"
    by (cases v) (simp_all add: part_text_def)
  with p v show ?thesis by simp
qed

lemma candidate_parts_Some:
  assumes "candidate_parts c = Some (t # ps)"
  shows "\<exists>co cn p parts po. c = JObj co \<and> co ''content'' = Some (JObj cn)
        \<and> cn ''parts'' = Some (JArr (p # parts)) \<and> p = JObj po \<and> po ''text'' = Some (JStr t)"
proof -
  from assms obtain co where c: "c = JObj co"
    by (cases c) (simp_all add: candidate_parts_def)
  with assms obtain v where v: "co ''content'' = Some v"
    by (cases "co ''content''") (simp_all add: candidate_parts_def)
  with assms c obtain cn where cn: "v = JObj cn"
    by (cases v) (simp_all add: candidate_parts_def)
  with assms c v obtain pv where pv: "cn ''parts'' = Some pv"
    by (cases "cn ''parts''") (simp_all add: candidate_parts_def)
  with assms c v cn obtain parts0 where parts0: "pv = JArr parts0"
    by (cases pv) (simp_all add: candidate_parts_def)
  with assms c v cn pv have "those (map part_text parts0) = Some (t # ps)"
    by (simp add: candidate_parts_def)
  from map_eq_Some_Cons [OF this] obtain p parts where
    p: "parts0 = p # parts" "part_text p = Some t"
    by blast
  from part_text_Some [OF p(2)] obtain po where po: "p = JObj po" "po ''text'' = Some (JStr t)"
    by blast
  have "c = JObj co \<and> co ''content'' = Some (JObj cn)
        \<and> cn ''parts'' = Some (JArr (p # parts)) \<and> p = JObj po \<and> po ''text'' = Some (JStr t)"
    using c v cn pv parts0 p(1) po by simp
  then show ?thesis by blast
qed

lemma schema_candidates:
  assumes "GeminiResponseSchema_parse data = Inr parsed"
  shows "\<exists>ob cands. data = JObj ob \<and> ob ''candidates'' = Some (JArr cands)
           \<and> those (map candidate_parts cands) = Some parsed"
proof -
  from assms obtain ob where d: "data = JObj ob"
    by (cases data) (simp_all add: GeminiResponseSchema_parse_def)
  with assms obtain v where v: "ob ''candidates'' = Some v"
    by (cases "ob ''candidates''") (simp_all add: GeminiResponseSchema_parse_def)
  with assms d obtain cands where cands: "v = JArr cands"
    by (cases v) (simp_all add: GeminiResponseSchema_parse_def)
  with assms d v have "those (map candidate_parts cands) = Some parsed"
    by (cases "those (map candidate_parts cands)")
       (simp_all add: GeminiResponseSchema_parse_def)
  with d v cands show ?thesis by simp
qed

lemma schema_first_text:
  assumes "GeminiResponseSchema_parse data = Inr ((t # ps) # cs)"
  shows "\<exists>ob c cands co cn p parts po.
        data = JObj ob \<and> ob ''candidates'' = Some (JArr (c # cands))
        \<and> c = JObj co \<and> co ''content'' = Some (JObj cn)
        \<and> cn ''parts'' = Some (JArr (p # parts)) \<and> p = JObj po \<and> po ''text'' = Some (JStr t)"
proof -
  from schema_candidates [OF assms] obtain ob cands0 where
    d: "data = JObj ob" "ob ''candidates'' = Some (JArr cands0)"
      "those (map candidate_parts cands0) = Some ((t # ps) # cs)"
    by blast
  from map_eq_Some_Cons [OF d(3)] obtain c cands where
    c: "cands0 = c # cands" "candidate_parts c = Some (t # ps)"
    by blast
  from candidate_parts_Some [OF c(2)] obtain co cn p parts po where
    "c = JObj co" "co ''content'' = Some (JObj cn)"
    "cn ''parts'' = Some (JArr (p # parts))" "p = JObj po" "po ''text'' = Some (JStr t)"
    by blast
  with d c show ?thesis by blast
qed

lemma insights_of_data_schema:
  assumes "GeminiResponseSchema_parse data = Inr ((t # ps) # cs)"
  shows "insights_of_data w data =
     (case jsonMatch t of
        None \<Rightarrow> Inr None
      | Some jsonStr \<Rightarrow>
          bindE (JSON_parse w jsonStr) (\<lambda>parsed.
          bindE (member parsed ''description'') (\<lambda>d.
          bindE (member parsed ''topics'') (\<lambda>ts.
            Inr (Some
              \<lparr>description =
                 (if truthy d then d else JStr ''AI couldn't generate a description''),
               topics = (case ts of JArr xs \<Rightarrow> xs | _ \<Rightarrow> [])\<rparr>)))))"
proof -
  from schema_first_text [OF assms] obtain ob c cands co cn p parts po where
    "data = JObj ob" "ob ''candidates'' = Some (JArr (c # cands))"
    "c = JObj co" "co ''content'' = Some (JObj cn)"
    "cn ''parts'' = Some (JArr (p # parts))" "p = JObj po" "po ''text'' = Some (JStr t)"
    by blast
  then show ?thesis
    by (simp add: insights_of_data_def bindE_def property_def)
qed

lemma insights_of_data_no_match:
  "GeminiResponseSchema_parse data = Inr ((t # ps) # cs) \<Longrightarrow> jsonMatch t = None \<Longrightarrow>
     insights_of_data w data = Inr None"
  by (simp add: insights_of_data_schema)

lemma insights_of_data_parse_throws:
  "GeminiResponseSchema_parse data = Inr ((t # ps) # cs) \<Longrightarrow> jsonMatch t = Some js \<Longrightarrow>
     JSON_parse w js = Inl e \<Longrightarrow> insights_of_data w data = Inl e"
  by (simp add: insights_of_data_schema bindE_def)

lemma fallbacks_differ: "fallback_parse_error \<noteq> fallback_unparsed"
  by (simp add: fallback_parse_error_def fallback_unparsed_def)

lemma generateInsights_with_key:
  "GEMINI_API_KEY w = Some k \<Longrightarrow> k \<noteq> [] \<Longrightarrow>
     generateInsights w th =
       (case insights_fetch w k th of
          Inl e \<Rightarrow> Inr fallback_call_failed
        | Inr data \<Rightarrow>
            (case insights_of_data w data of
               Inl parseError \<Rightarrow> Inr fallback_parse_error
             | Inr None \<Rightarrow> Inr fallback_unparsed
             | Inr (Some r) \<Rightarrow> Inr r))"
  by (simp add: generateInsights_def)

subsection \<open>\<open>generateInsights\<close>\<close>

text \<open>
  Claim C3 as stated fails at a missing configuration: the key is checked
  before the \<open>try\<close>, and without \<open>GEMINI_API_KEY\<close> the call throws.
\<close>

theorem generateInsights_no_key_counterexample:
  "generateInsights (sample_world None ''no json here'') ''a tweet''
     = Inl (Error ''GEMINI_API_KEY environment variable is not set'')"
  by (simp add: generateInsights_def sample_world_def)

text \<open>
  Claim C3, amended. With a non-empty \<open>GEMINI_API_KEY\<close>, \<open>generateInsights\<close>
  returns a pair for every tweet history and every outcome of the external call
  and of the parsing; when \<open>fetch\<close> rejects, or answers with a status that is
  not a success, the pair is the "Unable to analyze" fallback. Without the key,
  or with an empty one, it throws the configuration Error.
\<close>

theorem generateInsights_never_throws_with_key:
  "(\<forall>k. GEMINI_API_KEY w = Some k \<and> k \<noteq> [] \<longrightarrow> (\<exists>r. generateInsights w th = Inr r))
   \<and> (\<forall>k. GEMINI_API_KEY w = Some k \<and> k \<noteq> [] \<and> (\<forall>req. \<exists>e. fetch w req = Rejected e) \<longrightarrow>
         generateInsights w th = Inr fallback_call_failed)
   \<and> (\<forall>k. GEMINI_API_KEY w = Some k \<and> k \<noteq> []
           \<and> (\<forall>req. \<exists>r. fetch w req = Resolved r \<and> \<not> ok r) \<longrightarrow>
         generateInsights w th = Inr fallback_call_failed)
   \<and> (GEMINI_API_KEY w = None \<or> GEMINI_API_KEY w = Some [] \<longrightarrow>
         generateInsights w th = Inl (Error ''GEMINI_API_KEY environment variable is not set''))"
proof -
  have total: "\<exists>r. generateInsights w th = Inr r" if "GEMINI_API_KEY w = Some k" "k \<noteq> []" for k
    using that by (simp add: generateInsights_with_key split: sum.splits option.splits)
  have rejected: "generateInsights w th = Inr fallback_call_failed"
    if "GEMINI_API_KEY w = Some k" "k \<noteq> []" "\<forall>req. \<exists>e. fetch w req = Rejected e" for k
  proof -
    from that(3) have "\<exists>e. insights_fetch w k th = Inl e"
      by (metis (no_types, lifting) fetch_outcome.simps(5) insights_fetch_def)
    then show ?thesis using that(1,2) by (auto simp: generateInsights_with_key)
  qed
  have not_ok: "generateInsights w th = Inr fallback_call_failed"
    if "GEMINI_API_KEY w = Some k" "k \<noteq> []" "\<forall>req. \<exists>r. fetch w req = Resolved r \<and> \<not> ok r" for k
  proof -
    let ?req = "\<lparr>url = GEMINI_API_URL @ ''/'' @ GEMINI_MODEL @ '':generateContent?key='' @ k,
          http_method = ''POST'',
          headers = [(''Content-Type'', ''application/json'')],
          body = Some
            \<lparr>prompt_text = insights_prompt th,
             generationConfig = [(''temperature'', 7 / 10), (''maxOutputTokens'', 1000)]\<rparr>\<rparr>"
    from that(3) obtain r where "fetch w ?req = Resolved r" "\<not> ok r" by blast
    then have "\<exists>e. insights_fetch w k th = Inl e"
      by (simp add: insights_fetch_def split: sum.splits)
    then show ?thesis using that(1,2) by (auto simp: generateInsights_with_key)
  qed
  have no_key: "generateInsights w th = Inl (Error ''GEMINI_API_KEY environment variable is not set'')"
    if "GEMINI_API_KEY w = None \<or> GEMINI_API_KEY w = Some []"
    using that by (auto simp: generateInsights_def)
  show ?thesis using total rejected not_ok no_key by blast
qed


text \<open>
  A world that answers, one whose \<open>fetch\<close> rejects, one that answers 500, and
  one with an empty key.
\<close>

theorem generateInsights_never_throws_with_key_witness:
  "(\<exists>r. generateInsights (sample_world (Some ''key'') ''no json here'') ''a tweet'' = Inr r)
   \<and> generateInsights (failing_world fetch_rejects) ''a tweet'' = Inr fallback_call_failed
   \<and> generateInsights (failing_world fetch_not_ok) ''a tweet'' = Inr fallback_call_failed
   \<and> generateInsights (sample_world (Some []) ''no json here'') ''a tweet''
       = Inl (Error ''GEMINI_API_KEY environment variable is not set'')"
proof -
  have k: "GEMINI_API_KEY (sample_world (Some ''key'') ''no json here'') = Some ''key''"
    "GEMINI_API_KEY (failing_world fetch_rejects) = Some ''key''"
    "GEMINI_API_KEY (failing_world fetch_not_ok) = Some ''key''"
    "GEMINI_API_KEY (sample_world (Some []) ''no json here'') = Some []"
    by (simp_all add: sample_world_def failing_world_def)
  have f: "\<forall>req. \<exists>e. fetch (failing_world fetch_rejects) req = Rejected e"
    "\<forall>req. \<exists>r. fetch (failing_world fetch_not_ok) req = Resolved r \<and> \<not> ok r"
    by (simp_all add: failing_world_def fetch_rejects_def fetch_not_ok_def)
  show ?thesis
    using generateInsights_never_throws_with_key
        [of "sample_world (Some ''key'') ''no json here''" "''a tweet''"]
      generateInsights_never_throws_with_key [of "failing_world fetch_rejects" "''a tweet''"]
      generateInsights_never_throws_with_key [of "failing_world fetch_not_ok" "''a tweet''"]
      generateInsights_never_throws_with_key
        [of "sample_world (Some []) ''no json here''" "''a tweet''"]
      k f
    by simp
qed

lemma jsonMatch_oops: "jsonMatch ''{oops}'' = Some ''{oops}''"
  by (simp add: jsonMatch_def)

lemma jsonMatch_plain: "jsonMatch ''no json here'' = None"
  by (simp add: jsonMatch_def)

lemma schema_gemini_data: "GeminiResponseSchema_parse (gemini_data t) = Inr [[t]]"
  by (simp add: GeminiResponseSchema_parse_def gemini_data_def candidate_parts_def part_text_def)

lemma insights_fetch_sample:
  "insights_fetch (sample_world key t) k th = Inr (gemini_data t)"
  by (simp add: insights_fetch_def sample_world_def fetch_sample_def gemini_response_def)

lemma generateText_sample:
  "generateText (sample_world (Some ''key'') t) prompt options = Inr t"
  by (simp add: generateText_def sample_world_def fetch_sample_def gemini_response_def
        bindE_def schema_gemini_data)

text \<open>
  Claim C4 as stated fails where \<open>JSON.parse\<close> throws: the response text
  \<open>{oops}\<close> matches the pattern, does not parse, and the pair returned is the
  one of the inner \<open>catch\<close>, not the "technology and social media" pair.
\<close>

theorem generateInsights_parse_throws_counterexample:
  "jsonMatch ''{oops}'' = Some ''{oops}''
   \<and> JSON_parse (sample_world (Some ''key'') ''{oops}'') ''{oops}'' = Inl SyntaxError
   \<and> generateInsights (sample_world (Some ''key'') ''{oops}'') ''a tweet''
       = Inr \<lparr>description =
                JStr ''Error parsing AI response. The user appears to be active on social media.'',
              topics = [JStr ''Social Media'']\<rparr>"
proof -
  have p: "JSON_parse (sample_world (Some ''key'') ''{oops}'') ''{oops}'' = Inl SyntaxError"
    by (simp add: sample_world_def JSON_parse_sample_def)
  have k: "GEMINI_API_KEY (sample_world (Some ''key'') ''{oops}'') = Some ''key''"
    by (simp add: sample_world_def)
  have "insights_of_data (sample_world (Some ''key'') ''{oops}'') (gemini_data ''{oops}'')
          = Inl SyntaxError"
    using insights_of_data_parse_throws [OF schema_gemini_data jsonMatch_oops p] .
  then show ?thesis
    using p k
    by (simp add: generateInsights_with_key insights_fetch_sample jsonMatch_oops
          fallback_parse_error_def)
qed

text \<open>
  Claim C4, amended. With the key set and a response that conforms to the
  schema, \<open>t\<close> the text of its first part: when \<open>t\<close> has no \<open>{\<close> followed by a
  \<open>}\<close>, the result is the pair "This user appears to be interested in
  technology and social media." with the topics Technology and Social Media;
  when the matched text makes \<open>JSON.parse\<close> throw, the result is the pair "Error
  parsing AI response. The user appears to be active on social media." with the
  one topic Social Media.
\<close>

theorem generateInsights_fallbacks:
  "GEMINI_API_KEY w = Some k \<Longrightarrow> k \<noteq> [] \<Longrightarrow> insights_fetch w k th = Inr data \<Longrightarrow>
   GeminiResponseSchema_parse data = Inr ((t # ps) # cs) \<Longrightarrow>
     (jsonMatch t = None \<longrightarrow> generateInsights w th = Inr fallback_unparsed)
     \<and> (\<forall>js e. jsonMatch t = Some js \<and> JSON_parse w js = Inl e \<longrightarrow>
           generateInsights w th = Inr fallback_parse_error)
     \<and> description fallback_unparsed
         = JStr ''This user appears to be interested in technology and social media.''
     \<and> topics fallback_unparsed = [JStr ''Technology'', JStr ''Social Media'']
     \<and> description fallback_parse_error
         = JStr ''Error parsing AI response. The user appears to be active on social media.''
     \<and> topics fallback_parse_error = [JStr ''Social Media'']"
  by (auto simp: generateInsights_with_key insights_of_data_no_match
        insights_of_data_parse_throws fallback_unparsed_def fallback_parse_error_def)

text \<open>The response texts \<open>no json here\<close> and \<open>{oops}\<close>.\<close>

theorem generateInsights_fallbacks_witness:
  "generateInsights (sample_world (Some ''key'') ''no json here'') ''a tweet''
     = Inr fallback_unparsed
   \<and> generateInsights (sample_world (Some ''abc'') ''{oops}'') ''a tweet''
       = Inr fallback_parse_error"
proof -
  have k: "GEMINI_API_KEY (sample_world (Some ''key'') ''no json here'') = Some ''key''"
    "GEMINI_API_KEY (sample_world (Some ''abc'') ''{oops}'') = Some ''abc''"
    "''key'' \<noteq> []" "''abc'' \<noteq> []"
    by (simp_all add: sample_world_def)
  have p: "JSON_parse (sample_world (Some ''abc'') ''{oops}'') ''{oops}'' = Inl SyntaxError"
    by (simp add: sample_world_def JSON_parse_sample_def)
  show ?thesis
    using generateInsights_fallbacks
        [OF k(1) k(3) insights_fetch_sample schema_gemini_data, of "''a tweet''"]
      generateInsights_fallbacks
        [OF k(2) k(4) insights_fetch_sample schema_gemini_data, of "''a tweet''"]
      jsonMatch_plain jsonMatch_oops p
    by simp
qed

subsection \<open>\<open>translateBetweenFrames\<close>\<close>

text \<open>
  Claim C8. \<open>translateBetweenFrames\<close> returns no fallback: when the generated
  text has no \<open>{\<close> followed by a \<open>}\<close> it throws the Error "Could not parse JSON
  from response", when the matched text makes \<open>JSON.parse\<close> throw it throws
  what \<open>JSON.parse\<close> threw, and when \<open>generateText\<close> throws it throws the same.
\<close>

theorem translateBetweenFrames_propagates:
  "(\<forall>e. generateText w (translate_prompt sourceText targetHandle) translate_options = Inl e \<longrightarrow>
        translateBetweenFrames w sourceText targetHandle = Inl e)
   \<and> (\<forall>response.
         generateText w (translate_prompt sourceText targetHandle) translate_options
           = Inr response \<longrightarrow>
         (jsonMatch response = None \<longrightarrow>
            translateBetweenFrames w sourceText targetHandle
              = Inl (Error ''Could not parse JSON from response''))
         \<and> (\<forall>m e. jsonMatch response = Some m \<and> JSON_parse w m = Inl e \<longrightarrow>
               translateBetweenFrames w sourceText targetHandle = Inl e))"
  by (simp add: translateBetweenFrames_def bindE_def)

text \<open>The generated texts \<open>no json here\<close> and \<open>{oops}\<close>, and a missing key.\<close>

theorem translateBetweenFrames_propagates_witness:
  "generateText (sample_world (Some ''key'') ''no json here'')
       (translate_prompt ''be kind'' ''alice'') translate_options = Inr ''no json here''
   \<and> translateBetweenFrames (sample_world (Some ''key'') ''no json here'') ''be kind'' ''alice''
       = Inl (Error ''Could not parse JSON from response'')
   \<and> generateText (sample_world (Some ''key'') ''{oops}'')
       (translate_prompt ''be kind'' ''alice'') translate_options = Inr ''{oops}''
   \<and> translateBetweenFrames (sample_world (Some ''key'') ''{oops}'') ''be kind'' ''alice''
       = Inl SyntaxError
   \<and> generateText (sample_world None ''{}'')
       (translate_prompt ''be kind'' ''alice'') translate_options
       = Inl (Error ''GEMINI_API_KEY environment variable is not set'')
   \<and> translateBetweenFrames (sample_world None ''{}'') ''be kind'' ''alice''
       = Inl (Error ''GEMINI_API_KEY environment variable is not set'')"
proof -
  have p: "JSON_parse (sample_world (Some ''key'') ''{oops}'') ''{oops}'' = Inl SyntaxError"
    by (simp add: sample_world_def JSON_parse_sample_def)
  have n: "generateText (sample_world None ''{}'')
       (translate_prompt ''be kind'' ''alice'') translate_options
       = Inl (Error ''GEMINI_API_KEY environment variable is not set'')"
    by (simp add: generateText_def sample_world_def)
  show ?thesis
    using translateBetweenFrames_propagates
        [of "sample_world (Some ''key'') ''no json here''" "''be kind''" "''alice''"]
      translateBetweenFrames_propagates
        [of "sample_world (Some ''key'') ''{oops}''" "''be kind''" "''alice''"]
      translateBetweenFrames_propagates
        [of "sample_world None ''{}''" "''be kind''" "''alice''"]
      generateText_sample jsonMatch_plain jsonMatch_oops p n
    by simp
qed

section \<open>Properties of the archive client\<close>

text \<open>
  Claim C10. The request \<open>getRecentPopularTweets\<close> passes to \<open>fetch\<close> is
  \<open>req\<close>: a GET of the base URL followed by the fixed query with its sort
  order and the limit (25 when none is given), with the four headers built from
  \<open>SUPABASE_KEY\<close>, and no body. The handle is in none of its parts. What the
  operation returns is decided by the outcome of \<open>fetch\<close> at \<open>req\<close> alone: a
  rejection is rethrown, a status that is not a success throws "Failed to fetch
  tweets", a success is the body validated against the schema. So the result is
  the same for any two handles, in this world and in any world with the same
  key that answers \<open>req\<close> the same way.
\<close>

theorem getRecentPopularTweets_ignores_handle:
  assumes "L = (case limit of None \<Rightarrow> 25 | Some n \<Rightarrow> n)"
    and "key = (case SUPABASE_KEY w of None \<Rightarrow> [] | Some k \<Rightarrow> k)"
    and "req =
      \<lparr>url = baseUrl api @ ''/rest/v1/tweets?select=*&order=favorite_count.desc&limit=''
               @ String_of_number L,
       http_method = ''GET'',
       headers = [(''Accept'', ''application/json''), (''Content-Type'', ''application/json''),
                  (''apikey'', key), (''Authorization'', ''Bearer '' @ key)],
       body = None\<rparr>"
  shows "getRecentPopularTweets api w handle1 limit = getRecentPopularTweets api w handle2 limit
     \<and> (\<forall>e. fetch w req = Rejected e \<longrightarrow> getRecentPopularTweets api w handle1 limit = Inl e)
     \<and> (\<forall>r. fetch w req = Resolved r \<longrightarrow>
           getRecentPopularTweets api w handle1 limit
             = (if \<not> ok r then
                  (case text_result r of
                     Inl e \<Rightarrow> Inl e
                   | Inr errorText \<Rightarrow> Inl (Error (''Failed to fetch tweets: '' @ statusText r)))
                else bindE (json_result r) tweets_parse))
     \<and> (\<forall>w'. SUPABASE_KEY w' = SUPABASE_KEY w \<and> fetch w' req = fetch w req \<longrightarrow>
           getRecentPopularTweets api w' handle2 limit
             = getRecentPopularTweets api w handle1 limit)
     \<and> tweets_request api w L = req"
proof -
  have r: "tweets_request api w L = req"
    using assms by (simp add: tweets_request_def Let_def)
  have g: "getRecentPopularTweets api w h limit =
      (case fetch w req of
         Rejected e \<Rightarrow> Inl e
       | Resolved r \<Rightarrow>
           if \<not> ok r then
             (case text_result r of
                Inl e \<Rightarrow> Inl e
              | Inr errorText \<Rightarrow> Inl (Error (''Failed to fetch tweets: '' @ statusText r)))
           else bindE (json_result r) tweets_parse)" for h
    using r assms(1) by (simp add: getRecentPopularTweets_def Let_def)
  have g': "getRecentPopularTweets api w' h limit =
      (case fetch w' req of
         Rejected e \<Rightarrow> Inl e
       | Resolved r \<Rightarrow>
           if \<not> ok r then
             (case text_result r of
                Inl e \<Rightarrow> Inl e
              | Inr errorText \<Rightarrow> Inl (Error (''Failed to fetch tweets: '' @ statusText r)))
           else bindE (json_result r) tweets_parse)"
    if "SUPABASE_KEY w' = SUPABASE_KEY w" for w' h
  proof -
    have "tweets_request api w' L = req"
      using assms that by (simp add: tweets_request_def Let_def)
    then show ?thesis
      using assms(1) by (simp add: getRecentPopularTweets_def Let_def)
  qed
  have same: "getRecentPopularTweets api w handle1 limit = getRecentPopularTweets api w handle2 limit"
    by (simp add: g)
  have rej: "\<forall>e. fetch w req = Rejected e \<longrightarrow> getRecentPopularTweets api w handle1 limit = Inl e"
    by (simp add: g)
  have res: "\<forall>r. fetch w req = Resolved r \<longrightarrow>
           getRecentPopularTweets api w handle1 limit
             = (if \<not> ok r then
                  (case text_result r of
                     Inl e \<Rightarrow> Inl e
                   | Inr errorText \<Rightarrow> Inl (Error (''Failed to fetch tweets: '' @ statusText r)))
                else bindE (json_result r) tweets_parse)"
    by (simp add: g)
  have other: "\<forall>w'. SUPABASE_KEY w' = SUPABASE_KEY w \<and> fetch w' req = fetch w req \<longrightarrow>
           getRecentPopularTweets api w' handle2 limit
             = getRecentPopularTweets api w handle1 limit"
    by (simp add: g g')
  show ?thesis
    using same rej res other r by blast
qed

text \<open>
  Against the sample archive, "@alice" and "bob" get the same tweets with the
  default limit, and the same rejection with limit 10.
\<close>

theorem getRecentPopularTweets_ignores_handle_witness:
  "getRecentPopularTweets sample_api archive_world ''@alice'' None = tweets_parse sample_tweets
   \<and> getRecentPopularTweets sample_api archive_world ''bob'' None = tweets_parse sample_tweets
   \<and> getRecentPopularTweets sample_api archive_world ''@alice'' (Some 10) = Inl NetworkError
   \<and> getRecentPopularTweets sample_api archive_world ''bob'' (Some 10) = Inl NetworkError"
proof -
  have d: "String_of_number 25 = ''25''" "String_of_number 10 = ''10''"
    by (simp_all add: String_of_number_def digits.simps)
  have f25: "fetch archive_world
        \<lparr>url = baseUrl sample_api
                 @ ''/rest/v1/tweets?select=*&order=favorite_count.desc&limit=''
                 @ String_of_number (case None of None \<Rightarrow> 25 | Some n \<Rightarrow> n),
         http_method = ''GET'', headers = hs, body = None\<rparr>
      = Resolved \<lparr>ok = True, status = 200, statusText = ''OK'',
                   text_result = Inl TypeError, json_result = Inr sample_tweets\<rparr>" for hs
    by (simp add: archive_world_def archive_fetch_def sample_api_def d)
  have f10: "fetch archive_world
        \<lparr>url = baseUrl sample_api
                 @ ''/rest/v1/tweets?select=*&order=favorite_count.desc&limit=''
                 @ String_of_number (case Some 10 of None \<Rightarrow> 25 | Some n \<Rightarrow> n),
         http_method = ''GET'', headers = hs, body = None\<rparr>
      = Rejected NetworkError" for hs
    by (simp add: archive_world_def archive_fetch_def sample_api_def d)
  note t25 = getRecentPopularTweets_ignores_handle
        [OF refl refl refl, where api = sample_api and limit = None and w = archive_world
            and ?handle1.0 = "''@alice''" and ?handle2.0 = "''bob''"]
  note t10 = getRecentPopularTweets_ignores_handle
        [OF refl refl refl, where api = sample_api and limit = "Some 10" and w = archive_world
            and ?handle1.0 = "''@alice''" and ?handle2.0 = "''bob''"]
  have a: "getRecentPopularTweets sample_api archive_world ''@alice'' None
      = tweets_parse sample_tweets"
    using t25 [THEN conjunct2, THEN conjunct2, THEN conjunct1, rule_format, OF f25]
    by (simp add: bindE_def)
  have b: "getRecentPopularTweets sample_api archive_world ''bob'' None
      = tweets_parse sample_tweets"
    using t25 [THEN conjunct1] a by simp
  have c: "getRecentPopularTweets sample_api archive_world ''@alice'' (Some 10)
      = Inl NetworkError"
    using t10 [THEN conjunct2, THEN conjunct1, rule_format, OF f10] .
  have e: "getRecentPopularTweets sample_api archive_world ''bob'' (Some 10)
      = Inl NetworkError"
    using t10 [THEN conjunct1] c by simp
  from a b c e show ?thesis by simp
qed

end
